theory Spec2Isabelle
  imports Main
begin

section \<open>Values, exceptions and the request object\<close>

text \<open>
  The sources are Python 2 (\<^verbatim>\<open>iteritems\<close>, \<^verbatim>\<open>e.message\<close>). A raised exception is a
  value of \<open>pyexc\<close>, a call that may raise returns \<open>pyexc + 'a\<close> with \<open>Inl\<close> for the
  raise. The constructors are the classes the two modules name, one for every other
  class that derives from \<^verbatim>\<open>Exception\<close> and one for the classes that derive from
  \<^verbatim>\<open>BaseException\<close> only (\<^verbatim>\<open>KeyboardInterrupt\<close>, \<^verbatim>\<open>SystemExit\<close>), which
  \<^verbatim>\<open>except Exception\<close> does not catch. The last string of each constructor is what
  \<^verbatim>\<open>e.message\<close> reads.
\<close>

datatype pyexc =
    CallError int string
  | AccessDenied string string
  | AttributeError string
  | TypeError string
  | ValueError string
  | KeyError string
  | OtherException string string
  | NonException string string

fun message :: "pyexc \<Rightarrow> string" where
  "message (CallError code msg) = msg"
| "message (AccessDenied realm msg) = msg"
| "message (AttributeError msg) = msg"
| "message (TypeError msg) = msg"
| "message (ValueError msg) = msg"
| "message (KeyError msg) = msg"
| "message (OtherException name msg) = msg"
| "message (NonException name msg) = msg"

fun is_AttributeError_or_TypeError :: "pyexc \<Rightarrow> bool" where
  "is_AttributeError_or_TypeError (AttributeError msg) = True"
| "is_AttributeError_or_TypeError (TypeError msg) = True"
| "is_AttributeError_or_TypeError e = False"

fun is_Exception :: "pyexc \<Rightarrow> bool" where
  "is_Exception (NonException name msg) = False"
| "is_Exception e = True"

text \<open>
  The values of a WSGI environ: strings, and the input stream with the bytes that
  \<^verbatim>\<open>read()\<close> returns.
\<close>

datatype envval = EStr string | EStream string

text \<open>
  The request object holds the attributes that \<^verbatim>\<open>WSGI.create_request\<close> assigns
  (\<open>request_method\<close> is the attribute \<^verbatim>\<open>method\<close>). An attribute that was never
  assigned is \<open>None\<close>; \<open>body\<close> is \<open>Some None\<close> once it is assigned Python's
  \<^verbatim>\<open>None\<close>.
\<close>

record request =
  headers :: "string \<rightharpoonup> envval"
  request_method :: "envval option"
  path :: "envval option"
  query :: "envval option"
  raw_request :: "(string \<times> envval) list option"
  body :: "string option option"

datatype pyval = PNone | PBool bool | PInt int | PStr string | PReq request

text \<open>Python's truth test, as \<^verbatim>\<open>if target:\<close> and \<^verbatim>\<open>not username\<close> apply it.\<close>

fun truthy :: "pyval \<Rightarrow> bool" where
  "truthy PNone = False"
| "truthy (PBool b) = b"
| "truthy (PInt i) = (i \<noteq> 0)"
| "truthy (PStr s) = (s \<noteq> [])"
| "truthy (PReq r) = True"

type_synonym kwargs = "string \<rightharpoonup> pyval"

text \<open>
  The parts of the package that the two modules use and that live in other modules:
  the credential accessors of the request class, the request class's method test, and
  whether \<^verbatim>\<open>AccessDenied\<close> is a subclass of \<^verbatim>\<open>CallError\<close>. They are parameters of
  the model, so every theorem holds for each choice of them. The accessors are pure
  and do not raise.
\<close>

record framework =
  get_auth_basic :: "request \<Rightarrow> pyval \<times> pyval"
  client_tokens :: "request \<Rightarrow> pyval \<times> pyval"
  access_token :: "request \<Rightarrow> pyval"
  AccessDenied_is_CallError :: bool
  is_method :: "request \<Rightarrow> string \<Rightarrow> bool"

fun is_CallError :: "framework \<Rightarrow> pyexc \<Rightarrow> bool" where
  "is_CallError fw (CallError code msg) = True"
| "is_CallError fw (AccessDenied realm msg) = AccessDenied_is_CallError fw"
| "is_CallError fw e = False"

section \<open>The decorator object and what a call leaves behind\<close>

text \<open>
  A validator (the \<^verbatim>\<open>target\<close> argument) and a handler are callables: functions of the
  positional and the keyword arguments that return a value or raise. What a callable
  does with arguments its signature does not accept is its own \<open>TypeError\<close>.
\<close>

type_synonym validator = "pyval list \<Rightarrow> kwargs \<Rightarrow> pyexc + pyval"

record controller =
  request :: request

type_synonym handler = "controller \<Rightarrow> pyval list \<Rightarrow> kwargs \<Rightarrow> pyexc + pyval"

datatype event =
    Log pyexc
  | TargetCall "pyval list" kwargs
  | FuncCall controller "pyval list" kwargs

datatype scheme = auth | basic_auth | client_auth | token_auth

text \<open>
  The state is the decorator instance \<^verbatim>\<open>self\<close> (its class and the two attributes
  \<^verbatim>\<open>decorate\<close> assigns; an attribute not yet assigned is \<open>None\<close>) together with the
  trace of what has been observed so far: each \<^verbatim>\<open>logger.debug\<close> record, each call of
  the validator and each call of the handler, in order.
\<close>

record dstate =
  cls :: scheme
  realm :: "string option"
  target_callback :: "validator option"
  trace :: "event list"

definition emit :: "event \<Rightarrow> dstate \<Rightarrow> dstate" where
  "emit ev s = s\<lparr>trace := trace s @ [ev]\<rparr>"

section \<open>Argument binding\<close>

text \<open>
  \<^verbatim>\<open>handle_target\<close>, \<^verbatim>\<open>normalize_target_params\<close> and \<^verbatim>\<open>target\<close> all have the
  signature \<^verbatim>\<open>(self, request, *args, **kwargs)\<close>. Python binds the actual arguments
  before the body runs and raises \<open>TypeError\<close> when a keyword argument names a
  parameter that is already bound (\<^verbatim>\<open>self\<close> always is) or when \<^verbatim>\<open>request\<close> gets no
  value. The message texts are shortened.
\<close>

definition multiple_values :: "string \<Rightarrow> string \<Rightarrow> pyexc" where
  "multiple_values f p = TypeError (f @ ''() got multiple values for keyword argument '' @ p)"

definition bind_request ::
  "string \<Rightarrow> pyval list \<Rightarrow> kwargs \<Rightarrow> pyexc + (pyval \<times> pyval list \<times> kwargs)" where
  "bind_request f pargs pkwargs =
     (if pkwargs ''self'' \<noteq> None then Inl (multiple_values f ''self'')
      else case pargs of
        r # rest \<Rightarrow>
          if pkwargs ''request'' \<noteq> None then Inl (multiple_values f ''request'')
          else Inr (r, rest, pkwargs)
      | [] \<Rightarrow>
          (case pkwargs ''request'' of
             Some r \<Rightarrow> Inr (r, [], pkwargs(''request'' := None))
           | None \<Rightarrow> Inl (TypeError (f @ ''() takes at least 2 arguments (1 given)''))))"

section \<open>decorators/auth.py\<close>

text \<open>
  \<^verbatim>\<open>normalize_target_params\<close> of the four classes, selected by the class of \<^verbatim>\<open>self\<close>.
  The arguments are the bound parameters.
\<close>

fun normalize_target_params ::
  "framework \<Rightarrow> scheme \<Rightarrow> request \<Rightarrow> pyval list \<Rightarrow> kwargs \<Rightarrow> pyexc + (pyval list \<times> kwargs)" where
  "normalize_target_params fw auth req args kwargs = Inr (PReq req # args, kwargs)"
| "normalize_target_params fw basic_auth req args kwargs =
     (case get_auth_basic fw req of (username, password) \<Rightarrow>
        if \<not> truthy username then Inl (ValueError ''username is required'')
        else if \<not> truthy password then Inl (ValueError ''password is required'')
        else Inr ([], [''request'' \<mapsto> PReq req, ''username'' \<mapsto> username,
                       ''password'' \<mapsto> password]))"
| "normalize_target_params fw client_auth req args kwargs =
     (case client_tokens fw req of (client_id, client_secret) \<Rightarrow>
        if \<not> truthy client_id then Inl (ValueError ''client_id is required'')
        else if \<not> truthy client_secret then Inl (ValueError ''client_secret is required'')
        else Inr ([], [''request'' \<mapsto> PReq req, ''client_id'' \<mapsto> client_id,
                       ''client_secret'' \<mapsto> client_secret]))"
| "normalize_target_params fw token_auth req args kwargs =
     (let access_token = access_token fw req in
        if \<not> truthy access_token then Inl (ValueError ''access_token is required'')
        else Inr ([], [''request'' \<mapsto> PReq req, ''access_token'' \<mapsto> access_token]))"

definition setup_error :: pyexc where
  "setup_error = CallError 403 ''You need a validator function to use authentication''"

text \<open>
  \<^verbatim>\<open>auth.target\<close>: reading \<^verbatim>\<open>self.target_callback\<close> raises \<open>AttributeError\<close> when
  \<^verbatim>\<open>decorate\<close> never assigned it; that and every \<open>AttributeError\<close> or \<open>TypeError\<close>
  of the validator is logged and replaced by the fixed \<open>CallError\<close>.
\<close>

definition target ::
  "pyval \<Rightarrow> pyval list \<Rightarrow> kwargs \<Rightarrow> dstate \<Rightarrow> (pyexc + pyval) \<times> dstate" where
  "target req args kwargs s =
     (case target_callback s of
        None \<Rightarrow>
          (Inl setup_error,
           emit (Log (AttributeError ''object has no attribute target_callback'')) s)
      | Some f \<Rightarrow>
          (let s1 = emit (TargetCall (req # args) kwargs) s in
           case f (req # args) kwargs of
             Inr ret \<Rightarrow> (Inr ret, s1)
           | Inl e \<Rightarrow>
               if is_AttributeError_or_TypeError e then (Inl setup_error, emit (Log e) s1)
               else (Inl e, s1)))"

text \<open>The body of the \<^verbatim>\<open>try\<close> block of \<^verbatim>\<open>auth.handle_target\<close>.\<close>

definition handle_target_try ::
  "framework \<Rightarrow> request \<Rightarrow> pyval list \<Rightarrow> kwargs \<Rightarrow> dstate \<Rightarrow> (pyexc + unit) \<times> dstate" where
  "handle_target_try fw req args kwargs s =
     (case bind_request ''normalize_target_params'' (PReq req # args) kwargs of
        Inl e \<Rightarrow> (Inl e, s)
      | Inr (r, args1, kwargs1) \<Rightarrow>
          (case normalize_target_params fw (cls s) req args1 kwargs1 of
             Inl e \<Rightarrow> (Inl e, s)
           | Inr (param_args, param_kwargs) \<Rightarrow>
               (case bind_request ''target'' param_args param_kwargs of
                  Inl e \<Rightarrow> (Inl e, s)
                | Inr (r2, args2, kwargs2) \<Rightarrow>
                    (case target r2 args2 kwargs2 s of
                       (Inl e, s1) \<Rightarrow> (Inl e, s1)
                     | (Inr ret, s1) \<Rightarrow>
                         if \<not> truthy ret
                         then (Inl (ValueError ''target did not return True''), s1)
                         else (Inr (), s1)))))"

text \<open>
  \<^verbatim>\<open>auth.handle_target\<close>: the two \<^verbatim>\<open>except\<close> clauses in their order. The second one
  logs, then raises \<^verbatim>\<open>AccessDenied(self.realm, e.message)\<close>, where reading a
  \<^verbatim>\<open>self.realm\<close> that was never assigned raises \<open>AttributeError\<close> instead.
\<close>

definition access_denied :: "dstate \<Rightarrow> pyexc \<Rightarrow> pyexc" where
  "access_denied s e =
     (case realm s of
        None \<Rightarrow> AttributeError ''object has no attribute realm''
      | Some rlm \<Rightarrow> AccessDenied rlm (message e))"

definition handle_target ::
  "framework \<Rightarrow> request \<Rightarrow> pyval list \<Rightarrow> kwargs \<Rightarrow> dstate \<Rightarrow> (pyexc + unit) \<times> dstate" where
  "handle_target fw req args kwargs s =
     (case handle_target_try fw req args kwargs s of
        (Inr u, s1) \<Rightarrow> (Inr (), s1)
      | (Inl e, s1) \<Rightarrow>
          if is_CallError fw e then (Inl e, s1)
          else if is_Exception e then (Inl (access_denied s1 e), emit (Log e) s1)
          else (Inl e, s1))"

text \<open>
  The closure \<^verbatim>\<open>decorated\<close> that \<^verbatim>\<open>auth.decorate\<close> returns. Its own parameters are
  \<^verbatim>\<open>(decorated_self, *args, **kwargs)\<close>; the call of \<^verbatim>\<open>self.handle_target\<close> passes
  the request positionally and forwards \<^verbatim>\<open>**kwargs\<close>, outside of any \<^verbatim>\<open>try\<close>.
\<close>

definition decorated ::
  "framework \<Rightarrow> handler \<Rightarrow> controller \<Rightarrow> pyval list \<Rightarrow> kwargs \<Rightarrow> dstate
     \<Rightarrow> (pyexc + pyval) \<times> dstate" where
  "decorated fw func decorated_self args kwargs s =
     (if kwargs ''decorated_self'' \<noteq> None
      then (Inl (multiple_values ''decorated'' ''decorated_self''), s)
      else case bind_request ''handle_target'' (PReq (request decorated_self) # args) kwargs of
        Inl e \<Rightarrow> (Inl e, s)
      | Inr (r, args1, kwargs1) \<Rightarrow>
          (case handle_target fw (request decorated_self) args1 kwargs1 s of
             (Inl e, s1) \<Rightarrow> (Inl e, s1)
           | (Inr u, s1) \<Rightarrow>
               (func decorated_self args kwargs, emit (FuncCall decorated_self args kwargs) s1)))"

text \<open>
  An actual argument of \<^verbatim>\<open>decorate\<close> is given or left out. \<^verbatim>\<open>auth.decorate\<close> has
  defaults for \<^verbatim>\<open>realm\<close> and \<^verbatim>\<open>target\<close>; the \<^verbatim>\<open>decorate\<close> of the three subclasses
  has the required parameter \<^verbatim>\<open>target\<close>, and Python raises \<open>TypeError\<close> when a
  required argument is left out. A given target is \<open>None\<close> for Python's \<^verbatim>\<open>None\<close>.
\<close>

datatype 'a arg = Omitted | Given 'a

type_synonym wrapped =
  "controller \<Rightarrow> pyval list \<Rightarrow> kwargs \<Rightarrow> dstate \<Rightarrow> (pyexc + pyval) \<times> dstate"

definition auth_decorate ::
  "framework \<Rightarrow> handler \<Rightarrow> string arg \<Rightarrow> validator option arg \<Rightarrow> dstate \<Rightarrow> wrapped \<times> dstate" where
  "auth_decorate fw func realm_arg target_arg s =
     (let rlm = (case realm_arg of Omitted \<Rightarrow> [] | Given r \<Rightarrow> r);
          tgt = (case target_arg of Omitted \<Rightarrow> None | Given t \<Rightarrow> t);
          s1 = s\<lparr>realm := Some rlm\<rparr>;
          s2 = (case tgt of None \<Rightarrow> s1 | Some f \<Rightarrow> s1\<lparr>target_callback := Some f\<rparr>)
      in (decorated fw func, s2))"

definition missing_argument :: pyexc where
  "missing_argument = TypeError ''decorate() takes exactly 3 arguments (2 given)''"

definition basic_auth_decorate ::
  "framework \<Rightarrow> handler \<Rightarrow> validator option arg \<Rightarrow> dstate \<Rightarrow> (pyexc + wrapped) \<times> dstate" where
  "basic_auth_decorate fw func target_arg s =
     (case target_arg of
        Omitted \<Rightarrow> (Inl missing_argument, s)
      | Given t \<Rightarrow>
          (case auth_decorate fw func (Given ''basic'') (Given t) s of
             (d, s1) \<Rightarrow> (Inr d, s1)))"

definition client_auth_decorate ::
  "framework \<Rightarrow> handler \<Rightarrow> validator option arg \<Rightarrow> dstate \<Rightarrow> (pyexc + wrapped) \<times> dstate" where
  "client_auth_decorate fw func target_arg s =
     (case target_arg of
        Omitted \<Rightarrow> (Inl missing_argument, s)
      | Given t \<Rightarrow> basic_auth_decorate fw func (Given t) s)"

definition token_auth_decorate ::
  "framework \<Rightarrow> handler \<Rightarrow> validator option arg \<Rightarrow> dstate \<Rightarrow> (pyexc + wrapped) \<times> dstate" where
  "token_auth_decorate fw func target_arg s =
     (case target_arg of
        Omitted \<Rightarrow> (Inl missing_argument, s)
      | Given t \<Rightarrow>
          (case auth_decorate fw func (Given ''Bearer'') (Given t) s of
             (d, s1) \<Rightarrow> (Inr d, s1)))"

text \<open>
  \<^verbatim>\<open>self.decorate(func, target)\<close>, selected by the class of \<^verbatim>\<open>self\<close>; for the
  generic class the realm is left out.
\<close>

definition decorate ::
  "framework \<Rightarrow> handler \<Rightarrow> validator option arg \<Rightarrow> dstate \<Rightarrow> (pyexc + wrapped) \<times> dstate" where
  "decorate fw func target_arg s =
     (case cls s of
        basic_auth \<Rightarrow> basic_auth_decorate fw func target_arg s
      | client_auth \<Rightarrow> client_auth_decorate fw func target_arg s
      | token_auth \<Rightarrow> token_auth_decorate fw func target_arg s
      | auth \<Rightarrow> (case auth_decorate fw func Omitted target_arg s of (d, s1) \<Rightarrow> (Inr d, s1)))"

section \<open>interface/wsgi.py\<close>

text \<open>
  The raw request is the WSGI environ, a dictionary; it is an association list whose
  keys are distinct, in the order \<^verbatim>\<open>iteritems\<close> yields them. \<^verbatim>\<open>raw_request[k]\<close>
  raises \<open>KeyError\<close> for a key that is not there, and \<^verbatim>\<open>read()\<close> exists on the
  stream only. The position of the stream after \<^verbatim>\<open>read()\<close> is not modelled.
\<close>

definition startswith :: "string \<Rightarrow> string \<Rightarrow> bool" where
  "startswith k p = (take (length p) k = p)"

fun copy_headers :: "(string \<times> envval) list \<Rightarrow> (string \<rightharpoonup> envval) \<Rightarrow> (string \<rightharpoonup> envval)" where
  "copy_headers [] h = h"
| "copy_headers ((k, v) # kvs) h =
     copy_headers kvs (if startswith k ''HTTP_'' then h(drop 5 k \<mapsto> v) else h)"

definition getitem :: "(string \<times> envval) list \<Rightarrow> string \<Rightarrow> pyexc + envval" where
  "getitem d k = (case map_of d k of None \<Rightarrow> Inl (KeyError k) | Some v \<Rightarrow> Inr v)"

fun read :: "envval \<Rightarrow> pyexc + string" where
  "read (EStream content) = Inr content"
| "read (EStr s) = Inl (AttributeError ''str object has no attribute read'')"

text \<open>
  \<^verbatim>\<open>WSGI.create_request\<close>. The request \<open>r0\<close> is what \<^verbatim>\<open>self.request_class()\<close>
  returns; the class is defined in another module.
\<close>

definition create_request ::
  "framework \<Rightarrow> request \<Rightarrow> (string \<times> envval) list \<Rightarrow> pyexc + request" where
  "create_request fw r0 raw =
     (let r1 = r0\<lparr>headers := copy_headers raw (headers r0)\<rparr> in
      case getitem raw ''REQUEST_METHOD'' of
        Inl e \<Rightarrow> Inl e
      | Inr m \<Rightarrow>
     (case getitem raw ''PATH_INFO'' of
        Inl e \<Rightarrow> Inl e
      | Inr p \<Rightarrow>
     (case getitem raw ''QUERY_STRING'' of
        Inl e \<Rightarrow> Inl e
      | Inr q \<Rightarrow>
          (let r2 = r1\<lparr>request_method := Some m, path := Some p, query := Some q,
                        raw_request := Some raw\<rparr> in
           if is_method fw r2 ''POST'' then
             (case getitem raw ''wsgi.input'' of
                Inl e \<Rightarrow> Inl e
              | Inr inp \<Rightarrow>
                  (case read inp of
                     Inl e \<Rightarrow> Inl e
                   | Inr content \<Rightarrow> Inr (r2\<lparr>body := Some (Some content)\<rparr>)))
           else Inr (r2\<lparr>body := Some None\<rparr>)))))"

section \<open>Notions used in the statements\<close>

text \<open>The events a call appended to the trace, and the calls of the handler among them.\<close>

definition new_events :: "dstate \<Rightarrow> dstate \<Rightarrow> event list" where
  "new_events s s' = drop (length (trace s)) (trace s')"

fun is_FuncCall :: "event \<Rightarrow> bool" where
  "is_FuncCall (FuncCall c a k) = True"
| "is_FuncCall e = False"

fun is_TargetCall :: "event \<Rightarrow> bool" where
  "is_TargetCall (TargetCall a k) = True"
| "is_TargetCall e = False"

text \<open>
  The first required credential field of the scheme that the request leaves empty or
  absent, in the words of the specification's table of schemes.
\<close>

definition missing_field :: "framework \<Rightarrow> scheme \<Rightarrow> request \<Rightarrow> string option" where
  "missing_field fw c req =
     (case c of
        auth \<Rightarrow> None
      | basic_auth \<Rightarrow>
          if \<not> truthy (fst (get_auth_basic fw req)) then Some ''username''
          else if \<not> truthy (snd (get_auth_basic fw req)) then Some ''password''
          else None
      | client_auth \<Rightarrow>
          if \<not> truthy (fst (client_tokens fw req)) then Some ''client_id''
          else if \<not> truthy (snd (client_tokens fw req)) then Some ''client_secret''
          else None
      | token_auth \<Rightarrow>
          if \<not> truthy (access_token fw req) then Some ''access_token'' else None)"

text \<open>
  The keyword arguments of a call of the decorated callable bind when none of them
  carries the name of a parameter that the call chain fills positionally.
\<close>

definition bindable :: "kwargs \<Rightarrow> bool" where
  "bindable kwargs =
     (kwargs ''decorated_self'' = None \<and> kwargs ''self'' = None \<and> kwargs ''request'' = None)"

section \<open>Concrete objects\<close>

text \<open>
  A request as \<^verbatim>\<open>request_class()\<close> may return it, a controller holding it, a
  framework whose accessors return fixed credentials and whose method test compares
  the method attribute, a new decorator instance of each class, the handler
  and the validators of the docstrings.
\<close>

definition example_request :: request where
  "example_request =
     \<lparr>headers = Map.empty, request_method = None, path = None, query = None,
      raw_request = None, body = None\<rparr>"

definition example_controller :: controller where
  "example_controller = \<lparr>request = example_request\<rparr>"

definition example_framework :: "pyval \<Rightarrow> pyval \<Rightarrow> pyval \<Rightarrow> framework" where
  "example_framework first second token =
     \<lparr>get_auth_basic = (\<lambda>r. (first, second)),
      client_tokens = (\<lambda>r. (first, second)),
      access_token = (\<lambda>r. token),
      AccessDenied_is_CallError = True,
      is_method = (\<lambda>r m. request_method r = Some (EStr m))\<rparr>"

definition new_decorator :: "scheme \<Rightarrow> dstate" where
  "new_decorator c = \<lparr>cls = c, realm = None, target_callback = None, trace = []\<rparr>"

text \<open>An instance after \<^verbatim>\<open>decorate\<close> assigned the realm and, if a target was given, the target.\<close>

definition decorated_with :: "scheme \<Rightarrow> string \<Rightarrow> validator option \<Rightarrow> dstate" where
  "decorated_with c r t = \<lparr>cls = c, realm = Some r, target_callback = t, trace = []\<rparr>"

definition example_handler :: handler where
  "example_handler c a k = Inr (PStr ''hello world'')"

definition example_target :: validator where
  "example_target a k =
     Inr (PBool (k ''username'' = Some (PStr ''foo'') \<and> k ''password'' = Some (PStr ''bar'')))"

definition raising_target :: "pyexc \<Rightarrow> validator" where
  "raising_target e a k = Inl e"

definition returning_target :: "pyval \<Rightarrow> validator" where
  "returning_target v a k = Inr v"

text \<open>A WSGI environ of a POST request.\<close>

definition example_environ :: "(string \<times> envval) list" where
  "example_environ =
     [(''REQUEST_METHOD'', EStr ''POST''), (''PATH_INFO'', EStr ''/user''),
      (''QUERY_STRING'', EStr ''a=1''), (''HTTP_HOST'', EStr ''example.com''),
      (''CONTENT_TYPE'', EStr ''text/plain''), (''wsgi.input'', EStream ''b=2'')]"

section \<open>Facts about single steps\<close>

lemma new_events_emit [simp]: "new_events s (emit ev s) = [ev]"
  by (simp add: new_events_def emit_def)

lemma new_events_emit2 [simp]: "new_events s (emit ev2 (emit ev s)) = [ev, ev2]"
  by (simp add: new_events_def emit_def)

lemma new_events_same [simp]: "new_events s s = []"
  by (simp add: new_events_def)

lemma emit_fields [simp]:
  "cls (emit ev s) = cls s" "realm (emit ev s) = realm s"
  "target_callback (emit ev s) = target_callback s"
  "trace (emit ev s) = trace s @ [ev]"
  by (simp_all add: emit_def)

lemma access_denied_emit [simp]: "access_denied (emit ev s) e = access_denied s e"
  by (simp add: access_denied_def)

lemma decorated_with_fields [simp]:
  "cls (decorated_with c r t) = c" "realm (decorated_with c r t) = Some r"
  "target_callback (decorated_with c r t) = t" "trace (decorated_with c r t) = []"
  by (simp_all add: decorated_with_def)

lemma example_framework_fields [simp]:
  "get_auth_basic (example_framework u p t) r = (u, p)"
  "client_tokens (example_framework u p t) r = (u, p)"
  "access_token (example_framework u p t) r = t"
  "AccessDenied_is_CallError (example_framework u p t) = True"
  by (simp_all add: example_framework_def)

lemma bindable_empty [simp]: "bindable Map.empty"
  by (simp add: bindable_def)

lemma example_controller_request [simp]: "request example_controller = example_request"
  by (simp add: example_controller_def)

lemma new_decorator_fields [simp]:
  "cls (new_decorator c) = c" "realm (new_decorator c) = None"
  "target_callback (new_decorator c) = None" "trace (new_decorator c) = []"
  by (simp_all add: new_decorator_def)

lemma bind_request_positional:
  "kwargs ''self'' = None \<Longrightarrow> kwargs ''request'' = None \<Longrightarrow>
   bind_request f (r # a) kwargs = Inr (r, a, kwargs)"
  by (simp add: bind_request_def)

lemma normalize_Inl:
  "normalize_target_params fw c req args kwargs = Inl e \<Longrightarrow> \<exists>m. e = ValueError m"
  by (cases c) (auto split: prod.splits if_splits simp: Let_def)

lemma normalize_bind:
  assumes "normalize_target_params fw c req args kwargs = Inr (pa, pk)"
    and "kwargs ''self'' = None" and "kwargs ''request'' = None"
  shows "\<exists>a k. bind_request ''target'' pa pk = Inr (PReq req, a, k)"
  using assms
  by (cases c) (auto split: prod.splits if_splits simp: Let_def bind_request_def)

lemma handle_target_try_missing:
  assumes "kwargs ''self'' = None" and "kwargs ''request'' = None"
    and "normalize_target_params fw (cls s) req args kwargs = Inl e"
  shows "handle_target_try fw req args kwargs s = (Inl e, s)"
  using assms by (simp add: handle_target_try_def bind_request_positional)

lemma handle_target_try_target:
  assumes "kwargs ''self'' = None" and "kwargs ''request'' = None"
    and "normalize_target_params fw (cls s) req args kwargs = Inr (pa, pk)"
    and "bind_request ''target'' pa pk = Inr (r, a, k)"
  shows "handle_target_try fw req args kwargs s =
     (case target r a k s of
        (Inl e, s1) \<Rightarrow> (Inl e, s1)
      | (Inr ret, s1) \<Rightarrow>
          if \<not> truthy ret then (Inl (ValueError ''target did not return True''), s1)
          else (Inr (), s1))"
  using assms by (simp add: handle_target_try_def bind_request_positional)

lemma decorated_unbound:
  assumes "\<not> bindable kwargs"
  shows "\<exists>msg. decorated fw func ctrl args kwargs s = (Inl (TypeError msg), s)"
  using assms
  by (auto simp: bindable_def decorated_def bind_request_def multiple_values_def)

lemma decorated_bound:
  assumes "bindable kwargs"
  shows "decorated fw func ctrl args kwargs s =
     (case handle_target fw (request ctrl) args kwargs s of
        (Inl e, s1) \<Rightarrow> (Inl e, s1)
      | (Inr u, s1) \<Rightarrow> (func ctrl args kwargs, emit (FuncCall ctrl args kwargs) s1))"
  using assms
  by (simp add: bindable_def decorated_def bind_request_positional)

section \<open>Every way a call of the decorated callable can end\<close>

text \<open>
  A call ends in exactly one of nine ways: the keyword arguments do not bind; a
  credential is missing; no validator is stored; the validator accepts; it rejects; it
  raises \<open>AttributeError\<close> or \<open>TypeError\<close>; it raises a \<open>CallError\<close>; it raises
  another \<open>Exception\<close>; it raises something that is no \<open>Exception\<close>. Each case
  gives the result and the events added to the trace.
\<close>

lemma decorated_cases [consumes 1, case_names unbound missing absent accepted rejected misconfigured passthrough wrapped escaped]:
  assumes "decorated fw func ctrl args kwargs s = (out, s')"
  obtains
    (unbound) msg where "\<not> bindable kwargs" "out = Inl (TypeError msg)" "s' = s"
  | (missing) m where "bindable kwargs"
      "normalize_target_params fw (cls s) (request ctrl) args kwargs = Inl (ValueError m)"
      "out = Inl (access_denied s (ValueError m))" "s' = emit (Log (ValueError m)) s"
  | (absent) pa pk where "bindable kwargs"
      "normalize_target_params fw (cls s) (request ctrl) args kwargs = Inr (pa, pk)"
      "target_callback s = None" "out = Inl setup_error"
      "s' = emit (Log (AttributeError ''object has no attribute target_callback'')) s"
  | (accepted) pa pk f a k v where "bindable kwargs"
      "normalize_target_params fw (cls s) (request ctrl) args kwargs = Inr (pa, pk)"
      "bind_request ''target'' pa pk = Inr (PReq (request ctrl), a, k)"
      "target_callback s = Some f" "f (PReq (request ctrl) # a) k = Inr v" "truthy v"
      "out = func ctrl args kwargs"
      "s' = emit (FuncCall ctrl args kwargs) (emit (TargetCall (PReq (request ctrl) # a) k) s)"
  | (rejected) pa pk f a k v where "bindable kwargs"
      "normalize_target_params fw (cls s) (request ctrl) args kwargs = Inr (pa, pk)"
      "bind_request ''target'' pa pk = Inr (PReq (request ctrl), a, k)"
      "target_callback s = Some f" "f (PReq (request ctrl) # a) k = Inr v" "\<not> truthy v"
      "out = Inl (access_denied s (ValueError ''target did not return True''))"
      "s' = emit (Log (ValueError ''target did not return True''))
              (emit (TargetCall (PReq (request ctrl) # a) k) s)"
  | (misconfigured) pa pk f a k e where "bindable kwargs"
      "normalize_target_params fw (cls s) (request ctrl) args kwargs = Inr (pa, pk)"
      "bind_request ''target'' pa pk = Inr (PReq (request ctrl), a, k)"
      "target_callback s = Some f" "f (PReq (request ctrl) # a) k = Inl e"
      "is_AttributeError_or_TypeError e" "out = Inl setup_error"
      "s' = emit (Log e) (emit (TargetCall (PReq (request ctrl) # a) k) s)"
  | (passthrough) pa pk f a k e where "bindable kwargs"
      "normalize_target_params fw (cls s) (request ctrl) args kwargs = Inr (pa, pk)"
      "bind_request ''target'' pa pk = Inr (PReq (request ctrl), a, k)"
      "target_callback s = Some f" "f (PReq (request ctrl) # a) k = Inl e"
      "\<not> is_AttributeError_or_TypeError e" "is_CallError fw e" "out = Inl e"
      "s' = emit (TargetCall (PReq (request ctrl) # a) k) s"
  | (wrapped) pa pk f a k e where "bindable kwargs"
      "normalize_target_params fw (cls s) (request ctrl) args kwargs = Inr (pa, pk)"
      "bind_request ''target'' pa pk = Inr (PReq (request ctrl), a, k)"
      "target_callback s = Some f" "f (PReq (request ctrl) # a) k = Inl e"
      "\<not> is_AttributeError_or_TypeError e" "\<not> is_CallError fw e" "is_Exception e"
      "out = Inl (access_denied s e)"
      "s' = emit (Log e) (emit (TargetCall (PReq (request ctrl) # a) k) s)"
  | (escaped) pa pk f a k e where "bindable kwargs"
      "normalize_target_params fw (cls s) (request ctrl) args kwargs = Inr (pa, pk)"
      "bind_request ''target'' pa pk = Inr (PReq (request ctrl), a, k)"
      "target_callback s = Some f" "f (PReq (request ctrl) # a) k = Inl e"
      "\<not> is_AttributeError_or_TypeError e" "\<not> is_CallError fw e" "\<not> is_Exception e"
      "out = Inl e"
      "s' = emit (TargetCall (PReq (request ctrl) # a) k) s"
proof (cases "bindable kwargs")
  case False
  with decorated_unbound[OF False, of fw func ctrl args s] assms unbound show ?thesis
    by auto
next
  case b: True
  then have ks: "kwargs ''self'' = None" "kwargs ''request'' = None"
    by (simp_all add: bindable_def)
  note dec = assms[unfolded decorated_bound[OF b]]
  show ?thesis
  proof (cases "normalize_target_params fw (cls s) (request ctrl) args kwargs")
    case (Inl e)
    then obtain m where e: "e = ValueError m" using normalize_Inl by blast
    from dec Inl e ks show ?thesis
      by (intro missing[of m]) (auto simp: b handle_target_def handle_target_try_missing)
  next
    case (Inr p)
    obtain pa pk where p: "p = (pa, pk)" by (cases p)
    from normalize_bind[OF Inr[unfolded p] ks] obtain a k
      where bd: "bind_request ''target'' pa pk = Inr (PReq (request ctrl), a, k)" by blast
    note tr = handle_target_try_target[OF ks Inr[unfolded p] bd]
    show ?thesis
    proof (cases "target_callback s")
      case None
      with dec show ?thesis
        by (intro absent[of pa pk]) (auto simp: b Inr p handle_target_def tr target_def setup_error_def)
    next
      case (Some f)
      show ?thesis
      proof (cases "f (PReq (request ctrl) # a) k")
        case (Inr v)
        show ?thesis
        proof (cases "truthy v")
          case True
          with dec Some Inr show ?thesis
            by (intro accepted[of pa pk a k f v])
               (auto simp: b \<open>normalize_target_params fw (cls s) (request ctrl) args kwargs = Inr p\<close> p bd
                  handle_target_def tr target_def Let_def)
        next
          case False
          with dec Some Inr show ?thesis
            by (intro rejected[of pa pk a k f v])
               (auto simp: b \<open>normalize_target_params fw (cls s) (request ctrl) args kwargs = Inr p\<close> p bd
                  handle_target_def tr target_def Let_def)
        qed
      next
        case (Inl e)
        consider (su) "is_AttributeError_or_TypeError e"
          | (pt) "\<not> is_AttributeError_or_TypeError e" "is_CallError fw e"
          | (wr) "\<not> is_AttributeError_or_TypeError e" "\<not> is_CallError fw e" "is_Exception e"
          | (es) "\<not> is_AttributeError_or_TypeError e" "\<not> is_CallError fw e" "\<not> is_Exception e"
          by blast
        then show ?thesis
        proof cases
          case su
          with dec Some Inl show ?thesis
            by (intro misconfigured[of pa pk a k f e])
               (auto simp: b \<open>normalize_target_params fw (cls s) (request ctrl) args kwargs = Inr p\<close> p bd
                  handle_target_def tr target_def Let_def setup_error_def)
        next
          case pt
          with dec Some Inl show ?thesis
            by (intro passthrough[of pa pk a k f e])
               (auto simp: b \<open>normalize_target_params fw (cls s) (request ctrl) args kwargs = Inr p\<close> p bd
                  handle_target_def tr target_def Let_def)
        next
          case wr
          with dec Some Inl show ?thesis
            by (intro wrapped[of pa pk a k f e])
               (auto simp: b \<open>normalize_target_params fw (cls s) (request ctrl) args kwargs = Inr p\<close> p bd
                  handle_target_def tr target_def Let_def)
        next
          case es
          with dec Some Inl show ?thesis
            by (intro escaped[of pa pk a k f e])
               (auto simp: b \<open>normalize_target_params fw (cls s) (request ctrl) args kwargs = Inr p\<close> p bd
                  handle_target_def tr target_def Let_def)
        qed
      qed
    qed
  qed
qed

text \<open>The same, read forwards: what a call computes once the validator is reached.\<close>

lemma decorated_run:
  assumes b: "bindable kwargs"
    and n: "normalize_target_params fw (cls s) (request ctrl) args kwargs = Inr (pa, pk)"
    and bd: "bind_request ''target'' pa pk = Inr (r, a, k)"
    and t: "target_callback s = Some f"
  shows "decorated fw func ctrl args kwargs s =
     (case f (r # a) k of
        Inr v \<Rightarrow>
          if truthy v
          then (func ctrl args kwargs,
                emit (FuncCall ctrl args kwargs) (emit (TargetCall (r # a) k) s))
          else (Inl (access_denied s (ValueError ''target did not return True'')),
                emit (Log (ValueError ''target did not return True''))
                  (emit (TargetCall (r # a) k) s))
      | Inl e \<Rightarrow>
          if is_AttributeError_or_TypeError e
          then (Inl setup_error, emit (Log e) (emit (TargetCall (r # a) k) s))
          else if is_CallError fw e then (Inl e, emit (TargetCall (r # a) k) s)
          else if is_Exception e
          then (Inl (access_denied s e), emit (Log e) (emit (TargetCall (r # a) k) s))
          else (Inl e, emit (TargetCall (r # a) k) s))"
proof -
  from b have ks: "kwargs ''self'' = None" "kwargs ''request'' = None"
    by (simp_all add: bindable_def)
  show ?thesis
    by (cases "f (r # a) k")
       (simp_all add: decorated_bound[OF b] handle_target_def
          handle_target_try_target[OF ks n bd] target_def t Let_def setup_error_def)
qed

lemma decorated_run_absent:
  assumes b: "bindable kwargs"
    and n: "normalize_target_params fw (cls s) (request ctrl) args kwargs = Inr (pa, pk)"
    and t: "target_callback s = None"
  shows "decorated fw func ctrl args kwargs s =
     (Inl setup_error,
      emit (Log (AttributeError ''object has no attribute target_callback'')) s)"
proof -
  from b have ks: "kwargs ''self'' = None" "kwargs ''request'' = None"
    by (simp_all add: bindable_def)
  from normalize_bind[OF n ks] obtain a k
    where bd: "bind_request ''target'' pa pk = Inr (PReq (request ctrl), a, k)" by blast
  show ?thesis
    by (simp add: decorated_bound[OF b] handle_target_def
          handle_target_try_target[OF ks n bd] target_def t setup_error_def)
qed

lemma missing_credential_denied:
  assumes "bindable kwargs"
    and "normalize_target_params fw (cls s) (request ctrl) args kwargs = Inl e"
  shows "decorated fw func ctrl args kwargs s = (Inl (access_denied s e), emit (Log e) s)"
proof -
  from assms(1) have ks: "kwargs ''self'' = None" "kwargs ''request'' = None"
    by (simp_all add: bindable_def)
  from normalize_Inl[OF assms(2)] obtain m where e: "e = ValueError m" by blast
  show ?thesis
    by (simp add: decorated_bound[OF assms(1)] handle_target_def
        handle_target_try_missing[OF ks assms(2)] e)
qed

text \<open>What the \<^verbatim>\<open>decorate\<close> methods leave in the instance when a target is given.\<close>

lemma auth_decorate_state:
  "auth_decorate fw func (Given r) (Given t) s =
     (decorated fw func,
      (case t of
         None \<Rightarrow> s\<lparr>realm := Some r\<rparr>
       | Some f \<Rightarrow> s\<lparr>realm := Some r, target_callback := Some f\<rparr>))"
  by (cases t) (simp_all add: auth_decorate_def)

lemma basic_auth_decorate_given:
  "basic_auth_decorate fw func (Given t) s =
     (Inr (decorated fw func),
      (case t of
         None \<Rightarrow> s\<lparr>realm := Some ''basic''\<rparr>
       | Some f \<Rightarrow> s\<lparr>realm := Some ''basic'', target_callback := Some f\<rparr>))"
  by (simp add: basic_auth_decorate_def auth_decorate_state)

lemma client_auth_decorate_given:
  "client_auth_decorate fw func (Given t) s =
     (Inr (decorated fw func),
      (case t of
         None \<Rightarrow> s\<lparr>realm := Some ''basic''\<rparr>
       | Some f \<Rightarrow> s\<lparr>realm := Some ''basic'', target_callback := Some f\<rparr>))"
  by (simp add: client_auth_decorate_def basic_auth_decorate_given)

lemma token_auth_decorate_given:
  "token_auth_decorate fw func (Given t) s =
     (Inr (decorated fw func),
      (case t of
         None \<Rightarrow> s\<lparr>realm := Some ''Bearer''\<rparr>
       | Some f \<Rightarrow> s\<lparr>realm := Some ''Bearer'', target_callback := Some f\<rparr>))"
  by (simp add: token_auth_decorate_def auth_decorate_state)

text \<open>The keyword arguments the three subclasses hand to the validator.\<close>

lemma bind_target_basic:
  "bind_request ''target'' [] [''request'' \<mapsto> r, ''username'' \<mapsto> u, ''password'' \<mapsto> p] =
     Inr (r, [], [''username'' \<mapsto> u, ''password'' \<mapsto> p])"
  by (auto simp: bind_request_def fun_eq_iff)

lemma bind_target_client:
  "bind_request ''target'' [] [''request'' \<mapsto> r, ''client_id'' \<mapsto> u, ''client_secret'' \<mapsto> p] =
     Inr (r, [], [''client_id'' \<mapsto> u, ''client_secret'' \<mapsto> p])"
  by (auto simp: bind_request_def fun_eq_iff)

lemma bind_target_auth:
  "bind_request ''target'' [r] Map.empty = Inr (r, [], Map.empty)"
  by (simp add: bind_request_def)

lemma missing_field_normalize:
  assumes "missing_field fw c req = Some field"
  shows "normalize_target_params fw c req args kwargs =
           Inl (ValueError (field @ '' is required''))"
  using assms
  by (cases c) (auto simp: missing_field_def split: prod.splits if_splits)

lemma missing_field_None_iff:
  "missing_field fw c req = None \<longleftrightarrow>
     (\<exists>p. normalize_target_params fw c req args kwargs = Inr p)"
  by (cases c) (auto simp: missing_field_def Let_def split: prod.splits if_splits)

lemma bind_target_token:
  "bind_request ''target'' [] [''request'' \<mapsto> r, ''access_token'' \<mapsto> t] =
     Inr (r, [], [''access_token'' \<mapsto> t])"
  by (auto simp: bind_request_def fun_eq_iff)

text \<open>The arguments with which the validator is called, and where a realm can come from.\<close>

lemma validator_arguments:
  assumes "normalize_target_params fw c req args kwargs = Inr (pa, pk)"
    and "bind_request ''target'' pa pk = Inr (r, a, k)"
  shows "c = basic_auth \<Longrightarrow> a = [] \<and> k = [''username'' \<mapsto> fst (get_auth_basic fw req),
                                         ''password'' \<mapsto> snd (get_auth_basic fw req)]"
    and "c = client_auth \<Longrightarrow> a = [] \<and> k = [''client_id'' \<mapsto> fst (client_tokens fw req),
                                         ''client_secret'' \<mapsto> snd (client_tokens fw req)]"
    and "c = token_auth \<Longrightarrow> a = [] \<and> k = [''access_token'' \<mapsto> access_token fw req]"
  using assms
  by (auto split: prod.splits if_splits
      simp: bind_target_basic bind_target_client bind_target_token Let_def)

lemma validator_call_arguments:
  assumes "decorated fw func ctrl args kwargs s = (out, s')"
    and "TargetCall a k \<in> set (new_events s s')"
  shows "\<exists>pa pk a'. normalize_target_params fw (cls s) (request ctrl) args kwargs = Inr (pa, pk)
           \<and> bind_request ''target'' pa pk = Inr (PReq (request ctrl), a', k)
           \<and> a = PReq (request ctrl) # a'"
  using assms(1)
  by (cases rule: decorated_cases) (use assms(2) in auto)

lemma denied_realm:
  assumes "decorated fw func ctrl args kwargs s = (out, s')"
    and "realm s = Some rlm" and "out = Inl (AccessDenied r m)"
  shows "r = rlm \<or> (\<exists>ev \<in> set (new_events s s'). is_FuncCall ev)
         \<or> (\<exists>f a k. target_callback s = Some f \<and> TargetCall a k \<in> set (new_events s s')
               \<and> f a k = Inl (AccessDenied r m))"
  using assms(1)
proof (cases rule: decorated_cases)
  case (escaped pa pk f a k e)
  with assms(3) show ?thesis by (cases e) auto
qed (use assms(2,3) in \<open>auto simp: access_denied_def setup_error_def\<close>)

lemma decorate_given_state:
  assumes "decorate fw func (Given t) s0 = (res, s)"
  shows "res = Inr (decorated fw func) \<and> cls s = cls s0
       \<and> realm s = Some (case cls s0 of auth \<Rightarrow> [] | token_auth \<Rightarrow> ''Bearer'' | _ \<Rightarrow> ''basic'')
       \<and> target_callback s = (case t of None \<Rightarrow> target_callback s0 | Some f \<Rightarrow> Some f)"
  using assms
  by (cases "cls s0"; cases t)
     (auto simp: decorate_def basic_auth_decorate_given client_auth_decorate_given
        token_auth_decorate_given auth_decorate_def Let_def)

lemma decorate_new_decorator:
  "decorate fw func (Given t) (new_decorator basic_auth) =
     (Inr (decorated fw func), decorated_with basic_auth ''basic'' t)"
  "decorate fw func (Given t) (new_decorator client_auth) =
     (Inr (decorated fw func), decorated_with client_auth ''basic'' t)"
  "decorate fw func (Given t) (new_decorator token_auth) =
     (Inr (decorated fw func), decorated_with token_auth ''Bearer'' t)"
  by (cases t; simp add: decorate_def basic_auth_decorate_given client_auth_decorate_given
        token_auth_decorate_given new_decorator_def decorated_with_def)+

text \<open>The header loop of \<^verbatim>\<open>create_request\<close> over a dictionary.\<close>

lemma startswith_HTTP: "startswith k ''HTTP_'' \<longleftrightarrow> (\<exists>h. k = ''HTTP_'' @ h)"
proof
  assume "startswith k ''HTTP_''"
  then have "take 5 k = ''HTTP_''" by (simp add: startswith_def eval_nat_numeral)
  then have "k = ''HTTP_'' @ drop 5 k" by (metis append_take_drop_id)
  then show "\<exists>h. k = ''HTTP_'' @ h" ..
next
  assume "\<exists>h. k = ''HTTP_'' @ h"
  then show "startswith k ''HTTP_''" by (auto simp: startswith_def)
qed

lemma copy_headers_lookup:
  assumes "distinct (map fst raw)"
  shows "copy_headers raw h0 h =
           (case map_of raw (''HTTP_'' @ h) of Some v \<Rightarrow> Some v | None \<Rightarrow> h0 h)"
  using assms
proof (induction raw arbitrary: h0)
  case Nil
  then show ?case by simp
next
  case (Cons kv raw)
  obtain k v where kv: "kv = (k, v)" by (cases kv)
  from Cons.prems kv have d: "distinct (map fst raw)" and nk: "k \<notin> fst ` set raw" by auto
  from nk have mk: "map_of raw k = None" by (simp add: map_of_eq_None_iff)
  show ?case
  proof (cases "startswith k ''HTTP_''")
    case True
    then obtain h' where k: "k = ''HTTP_'' @ h'" using startswith_HTTP by blast
    then have dk: "drop 5 k = h'" by simp
    show ?thesis
    proof (cases "h' = h")
      case True
      with mk k show ?thesis
        using \<open>startswith k ''HTTP_''\<close> by (simp add: kv Cons.IH[OF d] dk)
    next
      case False
      then show ?thesis
        using \<open>startswith k ''HTTP_''\<close> k
        by (simp add: kv Cons.IH[OF d] dk split: option.splits)
    qed
  next
    case False
    then have "k \<noteq> ''HTTP_'' @ h" using startswith_HTTP by blast
    with False show ?thesis by (simp add: kv Cons.IH[OF d])
  qed
qed

lemma create_request_returns:
  assumes "map_of raw ''REQUEST_METHOD'' = Some m" and "map_of raw ''PATH_INFO'' = Some p"
    and "map_of raw ''QUERY_STRING'' = Some q"
    and "map_of raw ''wsgi.input'' = Some (EStream content)"
  shows "\<exists>r. create_request fw r0 raw = Inr r"
  using assms by (simp add: create_request_def getitem_def Let_def)

section \<open>The claims\<close>

text \<open>
  Claim C1, at an input where the code leaves it. A handler decorated with
  \<^verbatim>\<open>basic_auth\<close> is called with the keyword argument \<^verbatim>\<open>request\<close> on a request
  without Basic credentials. The closure forwards \<^verbatim>\<open>**kwargs\<close> into
  \<^verbatim>\<open>self.handle_target(decorated_self.request, *args, **kwargs)\<close>, whose second
  parameter is named \<^verbatim>\<open>request\<close>: the call raises \<open>TypeError\<close> outside of the
  \<^verbatim>\<open>try\<close> block, so no \<open>AccessDenied\<close> is raised. Neither the validator nor the
  handler is called and the instance is unchanged.
\<close>

theorem keyword_request_raises_TypeError:
  "decorated (example_framework PNone PNone PNone) example_handler example_controller []
      [''request'' \<mapsto> PStr ''x'']
      (decorated_with basic_auth ''basic'' (Some example_target))
   = (Inl (TypeError ''handle_target() got multiple values for keyword argument request''),
      decorated_with basic_auth ''basic'' (Some example_target))"
  by (simp add: decorated_def bind_request_def multiple_values_def)

text \<open>
  What claim C1 says holds for every call whose keyword arguments bind: when a required
  credential field is empty or absent, the call raises \<open>AccessDenied\<close> with the
  realm of the decorator and the message naming the field, and the only event is the
  log record, so neither the validator nor the handler is called.
\<close>

lemma missing_credential_rejected:
  assumes "bindable kwargs" and "realm s = Some rlm"
    and "missing_field fw (cls s) (request ctrl) = Some field"
  shows "decorated fw func ctrl args kwargs s =
           (Inl (AccessDenied rlm (field @ '' is required'')),
            emit (Log (ValueError (field @ '' is required''))) s)"
  using missing_credential_denied[OF assms(1) missing_field_normalize[OF assms(3)]] assms(2)
  by (simp add: access_denied_def)

text \<open>
  The third scenario: a Bearer request without a token is denied with realm
  \<open>Bearer\<close>, and the validator is not called.
\<close>

lemma missing_token_rejected:
  "decorated (example_framework PNone PNone PNone) example_handler example_controller []
     Map.empty (decorated_with token_auth ''Bearer'' (Some example_target))
   = (Inl (AccessDenied ''Bearer'' ''access_token is required''),
      emit (Log (ValueError ''access_token is required''))
        (decorated_with token_auth ''Bearer'' (Some example_target)))"
proof -
  have m: "missing_field (example_framework PNone PNone PNone)
             (cls (decorated_with token_auth ''Bearer'' (Some example_target)))
             (request example_controller) = Some ''access_token''"
    by (simp add: missing_field_def)
  have r: "realm (decorated_with token_auth ''Bearer'' (Some example_target)) = Some ''Bearer''"
    by simp
  from missing_credential_rejected[OF bindable_empty r m] show ?thesis by simp
qed

text \<open>
  Claim C2, at an input where the code leaves it. A handler decorated with
  \<^verbatim>\<open>basic_auth\<close> is called with the keyword argument \<^verbatim>\<open>request\<close> on a request
  with the Basic credentials \<open>(foo, bar)\<close>, which the validator of the docstring
  accepts. As in claim C1, \<^verbatim>\<open>self.handle_target(decorated_self.request, *args,
  **kwargs)\<close> raises \<open>TypeError\<close> at the call, outside of the \<^verbatim>\<open>try\<close> block: the
  validator is not called and the handler is not invoked, although the validator
  returns a truthy value for the credentials of the request.
\<close>

theorem keyword_request_skips_accepted_handler:
  "example_target [PReq example_request]
      [''username'' \<mapsto> PStr ''foo'', ''password'' \<mapsto> PStr ''bar''] = Inr (PBool True)
   \<and> decorated (example_framework (PStr ''foo'') (PStr ''bar'') PNone) example_handler
        example_controller [] [''request'' \<mapsto> PStr ''x'']
        (decorated_with basic_auth ''basic'' (Some example_target))
     = (Inl (TypeError ''handle_target() got multiple values for keyword argument request''),
        decorated_with basic_auth ''basic'' (Some example_target))"
  by (simp add: decorated_def bind_request_def multiple_values_def example_target_def)

text \<open>
  What claim C2 says holds for every call whose keyword arguments bind: when the
  validator, applied to the arguments that \<^verbatim>\<open>normalize_target_params\<close> extracts,
  returns a truthy value, the handler is called exactly once, after the validator, with
  the controller and the arguments that the decorated callable received, and its result
  is returned unchanged.
\<close>

lemma accepted_handler_runs_once:
  assumes "bindable kwargs"
    and "normalize_target_params fw (cls s) (request ctrl) args kwargs = Inr (pa, pk)"
    and "bind_request ''target'' pa pk = Inr (r, a, k)"
    and "target_callback s = Some f" and "f (r # a) k = Inr v" and "truthy v"
  shows "decorated fw func ctrl args kwargs s =
           (func ctrl args kwargs,
            emit (FuncCall ctrl args kwargs) (emit (TargetCall (r # a) k) s))"
  by (simp add: decorated_run[OF assms(1-4)] assms(5,6))

text \<open>
  The same, read from the trace: whenever the validator is called during a call and
  returns a truthy value, the trace of the call is that one call of the validator
  followed by the one call of the handler.
\<close>

lemma validator_accepts_handler_runs_once:
  assumes "decorated fw func ctrl args kwargs s = (out, s')"
    and "target_callback s = Some f"
    and "TargetCall a k \<in> set (new_events s s')"
    and "f a k = Inr v" and "truthy v"
  shows "out = func ctrl args kwargs \<and>
         new_events s s' = [TargetCall a k, FuncCall ctrl args kwargs]"
  using assms(1)
proof (cases rule: decorated_cases)
  case (accepted pa pk f' a' k' v')
  with assms show ?thesis by auto
qed (use assms in auto)

text \<open>
  The first scenario: Basic credentials \<open>(foo, bar)\<close>, the validator of the docstring.
\<close>

lemma first_scenario:
  "decorated (example_framework (PStr ''foo'') (PStr ''bar'') PNone) example_handler
          example_controller [] Map.empty (decorated_with basic_auth ''basic'' (Some example_target))
     = (Inr (PStr ''hello world''),
        emit (FuncCall example_controller [] Map.empty)
          (emit (TargetCall [PReq example_request]
                   [''username'' \<mapsto> PStr ''foo'', ''password'' \<mapsto> PStr ''bar''])
             (decorated_with basic_auth ''basic'' (Some example_target))))
   \<and> new_events (decorated_with basic_auth ''basic'' (Some example_target))
        (snd (decorated (example_framework (PStr ''foo'') (PStr ''bar'') PNone) example_handler
          example_controller [] Map.empty (decorated_with basic_auth ''basic'' (Some example_target))))
      = [TargetCall [PReq example_request]
           [''username'' \<mapsto> PStr ''foo'', ''password'' \<mapsto> PStr ''bar''],
         FuncCall example_controller [] Map.empty]"
proof -
  let ?fw = "example_framework (PStr ''foo'') (PStr ''bar'') PNone"
  let ?s = "decorated_with basic_auth ''basic'' (Some example_target)"
  let ?k = "[''username'' \<mapsto> PStr ''foo'', ''password'' \<mapsto> PStr ''bar'']"
  let ?a = "[PReq example_request]"
  have n: "normalize_target_params ?fw (cls ?s) (request example_controller) [] Map.empty =
      Inr ([], [''request'' \<mapsto> PReq example_request, ''username'' \<mapsto> PStr ''foo'',
                ''password'' \<mapsto> PStr ''bar''])"
    by simp
  have v: "example_target ?a ?k = Inr (PBool True)"
    by (simp add: example_target_def)
  have d: "decorated ?fw example_handler example_controller [] Map.empty ?s =
      (example_handler example_controller [] Map.empty,
       emit (FuncCall example_controller [] Map.empty) (emit (TargetCall ?a ?k) ?s))"
    by (simp add: decorated_run[OF bindable_empty n bind_target_basic] v)
  have ev: "TargetCall ?a ?k \<in> set (new_events ?s
      (emit (FuncCall example_controller [] Map.empty) (emit (TargetCall ?a ?k) ?s)))"
    by simp
  have "truthy (PBool True)" by simp
  from validator_accepts_handler_runs_once
         [of ?fw example_handler example_controller "[]" Map.empty ?s _ _ example_target ?a ?k,
          OF d _ ev v this]
  show ?thesis
    by (simp add: d example_handler_def)
qed

text \<open>
  Claim C5. Whenever the validator, called during a call of the decorated callable,
  raises a \<open>CallError\<close>, the decorated callable raises that same exception, unchanged
  and not wrapped into \<open>AccessDenied\<close>; the trace of the call is the call of the
  validator alone, so the handler is not called and nothing is logged.
\<close>

theorem validator_CallError_passes_through:
  assumes "decorated fw func ctrl args kwargs s = (out, s')"
    and "target_callback s = Some f"
    and "TargetCall a k \<in> set (new_events s s')"
    and "f a k = Inl e" and "is_CallError fw e"
  shows "out = Inl e \<and> new_events s s' = [TargetCall a k]"
  using assms(1)
proof (cases rule: decorated_cases)
  case (passthrough pa pk f' a' k' e')
  with assms show ?thesis by auto
next
  case (misconfigured pa pk f' a' k' e')
  with assms show ?thesis by (cases e) auto
qed (use assms in auto)

text \<open>A Bearer validator that raises \<open>CallError(400)\<close>.\<close>

theorem validator_CallError_passes_through_witness:
  "decorated (example_framework PNone PNone (PStr ''foo'')) example_handler
      example_controller [] Map.empty
      (decorated_with token_auth ''Bearer'' (Some (raising_target (CallError 400 ''bad token''))))
   = (Inl (CallError 400 ''bad token''),
      emit (TargetCall [PReq example_request] [''access_token'' \<mapsto> PStr ''foo''])
        (decorated_with token_auth ''Bearer'' (Some (raising_target (CallError 400 ''bad token'')))))"
proof -
  let ?fw = "example_framework PNone PNone (PStr ''foo'')"
  let ?f = "raising_target (CallError 400 ''bad token'')"
  let ?s = "decorated_with token_auth ''Bearer'' (Some ?f)"
  let ?k = "[''access_token'' \<mapsto> PStr ''foo'']"
  let ?a = "[PReq example_request]"
  have n: "normalize_target_params ?fw (cls ?s) (request example_controller) [] Map.empty =
      Inr ([], [''request'' \<mapsto> PReq example_request, ''access_token'' \<mapsto> PStr ''foo''])"
    by simp
  have v: "?f ?a ?k = Inl (CallError 400 ''bad token'')"
    by (simp add: raising_target_def)
  have d: "decorated ?fw example_handler example_controller [] Map.empty ?s =
      (Inl (CallError 400 ''bad token''), emit (TargetCall ?a ?k) ?s)"
    by (simp add: decorated_run[OF bindable_empty n bind_target_token] v)
  have ev: "TargetCall ?a ?k \<in> set (new_events ?s (emit (TargetCall ?a ?k) ?s))"
    by simp
  have c: "is_CallError ?fw (CallError 400 ''bad token'')" by simp
  from validator_CallError_passes_through
         [of ?fw example_handler example_controller "[]" Map.empty ?s _ _ ?f ?a ?k,
          OF d _ ev v c]
  show ?thesis by (simp add: d)
qed

text \<open>
  Claim C3 as stated fails: a validator that raises \<open>TypeError\<close>, which is not a
  \<open>CallError\<close>, makes the decorated callable raise the fixed \<open>CallError(403)\<close> of
  \<^verbatim>\<open>auth.target\<close>, not \<open>AccessDenied\<close>.
\<close>

theorem validator_TypeError_counterexample:
  "raising_target (TypeError ''boom'') [PReq example_request] Map.empty = Inl (TypeError ''boom'')
   \<and> \<not> is_CallError (example_framework PNone PNone PNone) (TypeError ''boom'')
   \<and> fst (decorated (example_framework PNone PNone PNone) example_handler example_controller []
             Map.empty (decorated_with auth ''Bearer'' (Some (raising_target (TypeError ''boom'')))))
       = Inl (CallError 403 ''You need a validator function to use authentication'')"
proof -
  let ?fw = "example_framework PNone PNone PNone"
  let ?f = "raising_target (TypeError ''boom'')"
  let ?s = "decorated_with auth ''Bearer'' (Some ?f)"
  have n: "normalize_target_params ?fw (cls ?s) (request example_controller) [] Map.empty =
      Inr ([PReq example_request], Map.empty)"
    by simp
  have v: "?f [PReq example_request] Map.empty = Inl (TypeError ''boom'')"
    by (simp add: raising_target_def)
  show ?thesis
    by (simp add: decorated_run[OF bindable_empty n bind_target_auth] v setup_error_def)
qed

text \<open>
  Claim C3, amended. Whenever the validator, called during a call of the decorated
  callable, returns a falsy value, or raises an exception that derives from
  \<^verbatim>\<open>Exception\<close> and is neither a \<open>CallError\<close> nor an \<open>AttributeError\<close> nor a
  \<open>TypeError\<close>, the decorated callable raises \<open>AccessDenied\<close> with the realm of the
  decorator and the message of the underlying exception (for a falsy return, the
  \<open>ValueError\<close> with the text \<^verbatim>\<open>target did not return True\<close>); the trace of the
  call is the call of the validator and the log record, so the handler is not called.
\<close>

theorem validator_failure_denied:
  assumes "decorated fw func ctrl args kwargs s = (out, s')"
    and "target_callback s = Some f" and "realm s = Some rlm"
    and "TargetCall a k \<in> set (new_events s s')"
    and "(\<exists>v. f a k = Inr v \<and> \<not> truthy v \<and> e = ValueError ''target did not return True'')
         \<or> (f a k = Inl e \<and> is_Exception e \<and> \<not> is_CallError fw e
              \<and> \<not> is_AttributeError_or_TypeError e)"
  shows "out = Inl (AccessDenied rlm (message e)) \<and>
         new_events s s' = [TargetCall a k, Log e]"
  using assms(1)
proof (cases rule: decorated_cases)
  case (rejected pa pk f' a' k' v')
  with assms show ?thesis by (auto simp: access_denied_def)
next
  case (wrapped pa pk f' a' k' e')
  with assms show ?thesis by (auto simp: access_denied_def)
qed (use assms in auto)

text \<open>
  The fifth scenario: the validator of a generic \<^verbatim>\<open>auth\<close> decorator raises an
  unrelated exception.
\<close>

theorem validator_failure_denied_witness:
  "decorated (example_framework PNone PNone PNone) example_handler example_controller []
      Map.empty
      (decorated_with auth ''Bearer'' (Some (raising_target (OtherException ''LookupError'' ''no such user''))))
   = (Inl (AccessDenied ''Bearer'' ''no such user''),
      emit (Log (OtherException ''LookupError'' ''no such user''))
        (emit (TargetCall [PReq example_request] Map.empty)
           (decorated_with auth ''Bearer''
              (Some (raising_target (OtherException ''LookupError'' ''no such user''))))))"
proof -
  let ?fw = "example_framework PNone PNone PNone"
  let ?e = "OtherException ''LookupError'' ''no such user''"
  let ?f = "raising_target ?e"
  let ?s = "decorated_with auth ''Bearer'' (Some ?f)"
  let ?a = "[PReq example_request]"
  have n: "normalize_target_params ?fw (cls ?s) (request example_controller) [] Map.empty =
      Inr ([PReq example_request], Map.empty)"
    by simp
  have v: "?f ?a Map.empty = Inl ?e"
    by (simp add: raising_target_def)
  have d: "decorated ?fw example_handler example_controller [] Map.empty ?s =
      (Inl (access_denied ?s ?e), emit (Log ?e) (emit (TargetCall ?a Map.empty) ?s))"
    by (simp add: decorated_run[OF bindable_empty n bind_target_auth] v)
  have ev: "TargetCall ?a Map.empty \<in> set (new_events ?s
      (emit (Log ?e) (emit (TargetCall ?a Map.empty) ?s)))"
    by simp
  have h: "(\<exists>v. ?f ?a Map.empty = Inr v \<and> \<not> truthy v \<and> ?e = ValueError ''target did not return True'')
         \<or> (?f ?a Map.empty = Inl ?e \<and> is_Exception ?e \<and> \<not> is_CallError ?fw ?e
              \<and> \<not> is_AttributeError_or_TypeError ?e)"
    by (simp add: v)
  from validator_failure_denied
         [of ?fw example_handler example_controller "[]" Map.empty ?s _ _ ?f "''Bearer''" ?a
             Map.empty ?e, OF d _ _ ev h]
  show ?thesis by (simp add: d)
qed

text \<open>
  Claim C4 as stated fails: decorating with \<^verbatim>\<open>basic_auth\<close> and no target fails with
  Python's \<open>TypeError\<close> for the missing argument of \<^verbatim>\<open>decorate(self, func, target)\<close>,
  which is not the \<open>CallError(403)\<close> of the setup-error classification.
\<close>

theorem omitted_target_counterexample:
  "fst (basic_auth_decorate (example_framework PNone PNone PNone) example_handler Omitted
          (new_decorator basic_auth))
     = Inl (TypeError ''decorate() takes exactly 3 arguments (2 given)'')
   \<and> fst (basic_auth_decorate (example_framework PNone PNone PNone) example_handler Omitted
          (new_decorator basic_auth))
     \<noteq> Inl (CallError 403 ''You need a validator function to use authentication'')"
  by (simp add: basic_auth_decorate_def missing_argument_def)

text \<open>
  Claim C4, amended. For each of the three scheme classes, decoration with the target
  argument left out fails with \<open>TypeError\<close> (neither \<open>CallError\<close> nor
  \<open>AccessDenied\<close>) and leaves the instance unchanged. For the generic \<^verbatim>\<open>auth\<close>
  class with no target (left out, or \<^verbatim>\<open>None\<close>) on an instance that holds none,
  decoration succeeds and returns the closure, and every call of it whose keyword
  arguments bind raises \<open>CallError(403)\<close> with the validator-required message, after
  logging the \<open>AttributeError\<close>; it does not raise \<open>AccessDenied\<close>.
\<close>

theorem decoration_without_validator:
  assumes "cls s = auth" and "target_callback s = None"
    and "t = Omitted \<or> t = Given None" and "bindable kwargs"
  shows "basic_auth_decorate fw func Omitted s0 =
           (Inl (TypeError ''decorate() takes exactly 3 arguments (2 given)''), s0)
       \<and> client_auth_decorate fw func Omitted s0 =
           (Inl (TypeError ''decorate() takes exactly 3 arguments (2 given)''), s0)
       \<and> token_auth_decorate fw func Omitted s0 =
           (Inl (TypeError ''decorate() takes exactly 3 arguments (2 given)''), s0)
       \<and> fst (auth_decorate fw func r t s) = decorated fw func
       \<and> decorated fw func ctrl args kwargs (snd (auth_decorate fw func r t s))
           = (Inl (CallError 403 ''You need a validator function to use authentication''),
              emit (Log (AttributeError ''object has no attribute target_callback''))
                (snd (auth_decorate fw func r t s)))"
proof -
  let ?s1 = "snd (auth_decorate fw func r t s)"
  from assms(1,2,3) have t: "target_callback ?s1 = None" and c: "cls ?s1 = auth"
    by (auto simp: auth_decorate_def Let_def split: arg.splits)
  have n: "normalize_target_params fw (cls ?s1) (request ctrl) args kwargs =
      Inr (PReq (request ctrl) # args, kwargs)"
    by (simp add: c)
  have d: "fst (auth_decorate fw func r t s) = decorated fw func"
    by (simp add: auth_decorate_def Let_def)
  show ?thesis
    by (simp add: basic_auth_decorate_def client_auth_decorate_def token_auth_decorate_def
        missing_argument_def decorated_run_absent[OF assms(4) n t] setup_error_def d)
qed

text \<open>A new generic decorator with realm \<open>Bearer\<close> and no target, called once.\<close>

theorem decoration_without_validator_witness:
  "decorated (example_framework PNone PNone PNone) example_handler example_controller []
     Map.empty
     (snd (auth_decorate (example_framework PNone PNone PNone) example_handler
             (Given ''Bearer'') Omitted (new_decorator auth)))
   = (Inl (CallError 403 ''You need a validator function to use authentication''),
      emit (Log (AttributeError ''object has no attribute target_callback''))
        (snd (auth_decorate (example_framework PNone PNone PNone) example_handler
                (Given ''Bearer'') Omitted (new_decorator auth))))"
proof -
  have c: "cls (new_decorator auth) = auth" by simp
  have t: "target_callback (new_decorator auth) = None" by simp
  have o: "(Omitted :: validator option arg) = Omitted \<or> (Omitted :: validator option arg) = Given None"
    by simp
  from decoration_without_validator[OF c t o bindable_empty] show ?thesis by simp
qed

text \<open>
  Claim C6 as stated fails: a \<^verbatim>\<open>client_auth\<close> decorator with \<^verbatim>\<open>target=None\<close>,
  called on a request without client credentials, raises \<open>AccessDenied\<close>, because the
  credentials are checked before the validator is looked up.
\<close>

theorem missing_credentials_counterexample:
  "target_callback (decorated_with client_auth ''basic'' None) = None
   \<and> fst (decorated (example_framework PNone PNone PNone) example_handler example_controller []
             Map.empty (decorated_with client_auth ''basic'' None))
       = Inl (AccessDenied ''basic'' ''client_id is required'')"
proof -
  let ?fw = "example_framework PNone PNone PNone"
  let ?s = "decorated_with client_auth ''basic'' None"
  have n: "normalize_target_params ?fw (cls ?s) (request example_controller) [] Map.empty =
      Inl (ValueError ''client_id is required'')"
    by simp
  show ?thesis
    by (simp add: missing_credential_denied[OF bindable_empty n] access_denied_def)
qed

text \<open>
  Claim C6, amended. A call of the decorated callable raises \<open>CallError\<close> with status
  403 and the validator-required message, which is not \<open>AccessDenied\<close>, and does not
  call the handler, in two cases: no validator is stored, the keyword arguments bind and
  the credentials of the scheme are all present; or the validator is called and raises
  \<open>AttributeError\<close> or \<open>TypeError\<close>.
\<close>

theorem missing_validator_is_setup_error:
  assumes "decorated fw func ctrl args kwargs s = (out, s')"
    and "(target_callback s = None \<and> bindable kwargs
          \<and> (\<exists>p. normalize_target_params fw (cls s) (request ctrl) args kwargs = Inr p))
         \<or> (\<exists>f a k e. target_callback s = Some f \<and> TargetCall a k \<in> set (new_events s s')
              \<and> f a k = Inl e \<and> is_AttributeError_or_TypeError e)"
  shows "out = Inl (CallError 403 ''You need a validator function to use authentication'')
         \<and> (\<forall>r m. out \<noteq> Inl (AccessDenied r m))
         \<and> (\<forall>ev \<in> set (new_events s s'). \<not> is_FuncCall ev)"
  using assms(1)
proof (cases rule: decorated_cases)
  case (absent pa pk)
  then show ?thesis by (simp add: setup_error_def)
next
  case (misconfigured pa pk f a k e)
  then show ?thesis by (simp add: setup_error_def)
next
  case (passthrough pa pk f' a' k' e')
  with assms(2) show ?thesis by (cases e') auto
next
  case (wrapped pa pk f' a' k' e')
  with assms(2) show ?thesis by (cases e') auto
next
  case (escaped pa pk f' a' k' e')
  with assms(2) show ?thesis by (cases e') auto
qed (use assms(2) in auto)

text \<open>
  The fourth scenario: \<^verbatim>\<open>client_auth\<close> decorated with \<^verbatim>\<open>target=None\<close>, called on a
  request that carries a client id and secret.
\<close>

theorem missing_validator_is_setup_error_witness:
  "snd (client_auth_decorate (example_framework (PStr ''id'') (PStr ''secret'') PNone)
          example_handler (Given None) (new_decorator client_auth))
     = decorated_with client_auth ''basic'' None
   \<and> decorated (example_framework (PStr ''id'') (PStr ''secret'') PNone) example_handler
       example_controller [] Map.empty (decorated_with client_auth ''basic'' None)
     = (Inl (CallError 403 ''You need a validator function to use authentication''),
        emit (Log (AttributeError ''object has no attribute target_callback''))
          (decorated_with client_auth ''basic'' None))"
proof -
  let ?fw = "example_framework (PStr ''id'') (PStr ''secret'') PNone"
  let ?s = "decorated_with client_auth ''basic'' None"
  have n: "normalize_target_params ?fw (cls ?s) (request example_controller) [] Map.empty =
      Inr ([], [''request'' \<mapsto> PReq example_request, ''client_id'' \<mapsto> PStr ''id'',
                ''client_secret'' \<mapsto> PStr ''secret''])"
    by simp
  have t: "target_callback ?s = None" by simp
  have d: "decorated ?fw example_handler example_controller [] Map.empty ?s =
      (Inl setup_error,
       emit (Log (AttributeError ''object has no attribute target_callback'')) ?s)"
    by (rule decorated_run_absent[OF bindable_empty n t])
  have h: "(target_callback ?s = None \<and> bindable Map.empty
          \<and> (\<exists>p. normalize_target_params ?fw (cls ?s) (request example_controller) [] Map.empty = Inr p))
         \<or> (\<exists>f a k e. target_callback ?s = Some f
              \<and> TargetCall a k \<in> set (new_events ?s
                   (emit (Log (AttributeError ''object has no attribute target_callback'')) ?s))
              \<and> f a k = Inl e \<and> is_AttributeError_or_TypeError e)"
    using n by simp
  have st: "snd (client_auth_decorate ?fw example_handler (Given None) (new_decorator client_auth)) = ?s"
    by (simp add: client_auth_decorate_given new_decorator_def decorated_with_def)
  from missing_validator_is_setup_error
         [of ?fw example_handler example_controller "[]" Map.empty ?s, OF d h]
  show ?thesis by (simp add: d st)
qed

text \<open>
  Claim C7. Decorating with \<^verbatim>\<open>basic_auth\<close> sets the realm to \<open>basic\<close>, decorating
  with \<^verbatim>\<open>token_auth\<close> sets it to \<open>Bearer\<close>; the closure is returned and a given
  target is stored. A call of the closure calls the validator exactly once, with the
  request as the positional argument and exactly the keyword arguments \<^verbatim>\<open>username\<close>
  and \<^verbatim>\<open>password\<close>, respectively \<^verbatim>\<open>access_token\<close>, holding the values the
  request's accessor returned, when the keyword arguments of the call bind, no
  credential field is missing and a validator is stored; in every other case the
  validator is not called at all. Every \<open>AccessDenied\<close> that leaves the closure
  carries the fixed realm, unless the handler was called (and raised it) or the
  validator itself raised that exception, which \<^verbatim>\<open>except CallError: raise\<close> passes
  on when \<open>AccessDenied\<close> is a \<open>CallError\<close>.
\<close>

theorem basic_and_token_fix_realm_and_fields:
  assumes "cls s0 = basic_auth \<or> cls s0 = token_auth"
    and "decorate fw func (Given t) s0 = (res, s)"
    and "decorated fw func ctrl args kwargs s = (out, s')"
  shows "res = Inr (decorated fw func)
     \<and> realm s = Some (if cls s0 = basic_auth then ''basic'' else ''Bearer'')
     \<and> target_callback s = (case t of None \<Rightarrow> target_callback s0 | Some f \<Rightarrow> Some f)
     \<and> filter is_TargetCall (new_events s s') =
           (if bindable kwargs \<and> missing_field fw (cls s0) (request ctrl) = None
               \<and> target_callback s \<noteq> None
            then [TargetCall [PReq (request ctrl)]
                    (if cls s0 = basic_auth
                     then [''username'' \<mapsto> fst (get_auth_basic fw (request ctrl)),
                           ''password'' \<mapsto> snd (get_auth_basic fw (request ctrl))]
                     else [''access_token'' \<mapsto> access_token fw (request ctrl)])]
            else [])
     \<and> (\<forall>r m. out = Inl (AccessDenied r m) \<longrightarrow>
           r = (if cls s0 = basic_auth then ''basic'' else ''Bearer'')
           \<or> (\<exists>ev \<in> set (new_events s s'). is_FuncCall ev)
           \<or> (\<exists>f a k. target_callback s = Some f \<and> TargetCall a k \<in> set (new_events s s')
                 \<and> f a k = Inl (AccessDenied r m)))"
proof -
  note st = decorate_given_state[OF assms(2)]
  from st assms(1) have rl: "realm s = Some (if cls s0 = basic_auth then ''basic'' else ''Bearer'')"
    by auto
  from st have c: "cls s = cls s0" by simp
  let ?K = "(if cls s0 = basic_auth
                     then [''username'' \<mapsto> fst (get_auth_basic fw (request ctrl)),
                           ''password'' \<mapsto> snd (get_auth_basic fw (request ctrl))]
                     else [''access_token'' \<mapsto> access_token fw (request ctrl)])"
  have reached: "a = [] \<and> k = ?K \<and> missing_field fw (cls s0) (request ctrl) = None"
    if n: "normalize_target_params fw (cls s) (request ctrl) args kwargs = Inr (pa, pk)"
      and b: "bind_request ''target'' pa pk = Inr (PReq (request ctrl), a, k)" for pa pk a k
  proof -
    from assms(1) c have "cls s = basic_auth \<or> cls s = token_auth" by simp
    moreover from n have "missing_field fw (cls s) (request ctrl) = None"
      using missing_field_None_iff[of fw "cls s" "request ctrl" args kwargs] by simp
    ultimately show ?thesis
      using validator_arguments(1)[OF n b] validator_arguments(3)[OF n b] c by auto
  qed
  have calls: "filter is_TargetCall (new_events s s') =
           (if bindable kwargs \<and> missing_field fw (cls s0) (request ctrl) = None
               \<and> target_callback s \<noteq> None
            then [TargetCall [PReq (request ctrl)] ?K] else [])"
    using assms(3)
  proof (cases rule: decorated_cases)
    case (unbound msg)
    then show ?thesis by simp
  next
    case (missing m)
    then have "missing_field fw (cls s0) (request ctrl) \<noteq> None"
      using missing_field_None_iff[of fw "cls s" "request ctrl" args kwargs] c by simp
    with missing show ?thesis by simp
  next
    case (absent pa pk)
    then show ?thesis by simp
  next
    case (accepted pa pk f a k v)
    with reached[OF accepted(2,3)] show ?thesis by simp
  next
    case (rejected pa pk f a k v)
    with reached[OF rejected(2,3)] show ?thesis by simp
  next
    case (misconfigured pa pk f a k e)
    with reached[OF misconfigured(2,3)] show ?thesis by simp
  next
    case (passthrough pa pk f a k e)
    with reached[OF passthrough(2,3)] show ?thesis by simp
  next
    case (wrapped pa pk f a k e)
    with reached[OF wrapped(2,3)] show ?thesis by simp
  next
    case (escaped pa pk f a k e)
    with reached[OF escaped(2,3)] show ?thesis by simp
  qed
  from st rl calls denied_realm[OF assms(3) rl] show ?thesis by blast
qed

text \<open>
  The second scenario, Basic credentials with a wrong password, and a Bearer token
  that the validator accepts.
\<close>

theorem basic_and_token_fix_realm_and_fields_witness:
  "decorate (example_framework (PStr ''foo'') (PStr ''wrong'') PNone) example_handler
      (Given (Some example_target)) (new_decorator basic_auth)
     = (Inr (decorated (example_framework (PStr ''foo'') (PStr ''wrong'') PNone) example_handler),
        decorated_with basic_auth ''basic'' (Some example_target))
   \<and> decorated (example_framework (PStr ''foo'') (PStr ''wrong'') PNone) example_handler
        example_controller [] Map.empty (decorated_with basic_auth ''basic'' (Some example_target))
     = (Inl (AccessDenied ''basic'' ''target did not return True''),
        emit (Log (ValueError ''target did not return True''))
          (emit (TargetCall [PReq example_request]
                   [''username'' \<mapsto> PStr ''foo'', ''password'' \<mapsto> PStr ''wrong''])
             (decorated_with basic_auth ''basic'' (Some example_target))))
   \<and> decorate (example_framework PNone PNone (PStr ''foo'')) example_handler
      (Given (Some (returning_target (PBool True)))) (new_decorator token_auth)
     = (Inr (decorated (example_framework PNone PNone (PStr ''foo'')) example_handler),
        decorated_with token_auth ''Bearer'' (Some (returning_target (PBool True))))
   \<and> decorated (example_framework PNone PNone (PStr ''foo'')) example_handler
        example_controller [] Map.empty
        (decorated_with token_auth ''Bearer'' (Some (returning_target (PBool True))))
     = (Inr (PStr ''hello world''),
        emit (FuncCall example_controller [] Map.empty)
          (emit (TargetCall [PReq example_request] [''access_token'' \<mapsto> PStr ''foo''])
             (decorated_with token_auth ''Bearer'' (Some (returning_target (PBool True))))))"
proof -
  let ?fw = "example_framework (PStr ''foo'') (PStr ''wrong'') PNone"
  let ?s = "decorated_with basic_auth ''basic'' (Some example_target)"
  let ?k = "[''username'' \<mapsto> PStr ''foo'', ''password'' \<mapsto> PStr ''wrong'']"
  let ?a = "[PReq example_request]"
  let ?e = "ValueError ''target did not return True''"
  have c: "cls (new_decorator basic_auth) = basic_auth \<or> cls (new_decorator basic_auth) = token_auth"
    by simp
  have dc: "decorate ?fw example_handler (Given (Some example_target)) (new_decorator basic_auth)
      = (Inr (decorated ?fw example_handler), ?s)"
    by (rule decorate_new_decorator)
  have n: "normalize_target_params ?fw (cls ?s) (request example_controller) [] Map.empty =
      Inr ([], [''request'' \<mapsto> PReq example_request, ''username'' \<mapsto> PStr ''foo'',
                ''password'' \<mapsto> PStr ''wrong''])"
    by simp
  have v: "example_target ?a ?k = Inr (PBool False)"
    by (simp add: example_target_def)
  have d: "decorated ?fw example_handler example_controller [] Map.empty ?s =
      (Inl (access_denied ?s ?e), emit (Log ?e) (emit (TargetCall ?a ?k) ?s))"
    by (simp add: decorated_run[OF bindable_empty n bind_target_basic] v)
  let ?fw2 = "example_framework PNone PNone (PStr ''foo'')"
  let ?f2 = "returning_target (PBool True)"
  let ?s2 = "decorated_with token_auth ''Bearer'' (Some ?f2)"
  let ?k2 = "[''access_token'' \<mapsto> PStr ''foo'']"
  have c2: "cls (new_decorator token_auth) = basic_auth \<or> cls (new_decorator token_auth) = token_auth"
    by simp
  have dc2: "decorate ?fw2 example_handler (Given (Some ?f2)) (new_decorator token_auth)
      = (Inr (decorated ?fw2 example_handler), ?s2)"
    by (rule decorate_new_decorator)
  have n2: "normalize_target_params ?fw2 (cls ?s2) (request example_controller) [] Map.empty =
      Inr ([], [''request'' \<mapsto> PReq example_request, ''access_token'' \<mapsto> PStr ''foo''])"
    by simp
  have v2: "?f2 ?a ?k2 = Inr (PBool True)"
    by (simp add: returning_target_def)
  have d2: "decorated ?fw2 example_handler example_controller [] Map.empty ?s2 =
      (Inr (PStr ''hello world''),
       emit (FuncCall example_controller [] Map.empty) (emit (TargetCall ?a ?k2) ?s2))"
    by (simp add: decorated_run[OF bindable_empty n2 bind_target_token] v2 example_handler_def)
  from basic_and_token_fix_realm_and_fields[OF c dc d]
       basic_and_token_fix_realm_and_fields[OF c2 dc2 d2]
  show ?thesis
    by (simp add: dc d dc2 d2 access_denied_def)
qed

text \<open>
  Claim C8. Two calls of the same decorated handler with the same controller and
  arguments, the second one on the state that the first one left, have the same
  result (the same returned value or the same raised exception with its class, realm
  and message) and add the same events to the trace; the class, the realm and the
  validator of the instance are the same before, between and after the calls, so the
  only state the first call wrote, the trace, does not influence the second.
\<close>

theorem repeated_call_same_outcome:
  assumes "decorated fw func ctrl args kwargs s = (out1, s1)"
    and "decorated fw func ctrl args kwargs s1 = (out2, s2)"
  shows "out2 = out1 \<and> new_events s1 s2 = new_events s s1
       \<and> cls s1 = cls s \<and> realm s1 = realm s \<and> target_callback s1 = target_callback s
       \<and> cls s2 = cls s \<and> realm s2 = realm s \<and> target_callback s2 = target_callback s"
  using assms(1)
proof (cases rule: decorated_cases)
  case (unbound msg)
  with assms show ?thesis by simp
next
  case (missing m)
  with assms(2) missing_credential_denied[of kwargs fw s1 ctrl args "ValueError m" func]
  show ?thesis by simp
next
  case (absent pa pk)
  with assms(2) decorated_run_absent[of kwargs fw s1 ctrl args pa pk func]
  show ?thesis by simp
next
  case (accepted pa pk f a k v)
  with assms(2) decorated_run[of kwargs fw s1 ctrl args pa pk "PReq (request ctrl)" a k f func]
  show ?thesis by simp
next
  case (rejected pa pk f a k v)
  with assms(2) decorated_run[of kwargs fw s1 ctrl args pa pk "PReq (request ctrl)" a k f func]
  show ?thesis by simp
next
  case (misconfigured pa pk f a k e)
  with assms(2) decorated_run[of kwargs fw s1 ctrl args pa pk "PReq (request ctrl)" a k f func]
  show ?thesis by simp
next
  case (passthrough pa pk f a k e)
  with assms(2) decorated_run[of kwargs fw s1 ctrl args pa pk "PReq (request ctrl)" a k f func]
  show ?thesis by simp
next
  case (wrapped pa pk f a k e)
  with assms(2) decorated_run[of kwargs fw s1 ctrl args pa pk "PReq (request ctrl)" a k f func]
  show ?thesis by simp
next
  case (escaped pa pk f a k e)
  with assms(2) decorated_run[of kwargs fw s1 ctrl args pa pk "PReq (request ctrl)" a k f func]
  show ?thesis by simp
qed

text \<open>The first scenario, twice.\<close>

theorem repeated_call_same_outcome_witness:
  "fst (decorated (example_framework (PStr ''foo'') (PStr ''bar'') PNone) example_handler
          example_controller [] Map.empty
          (decorated_with basic_auth ''basic'' (Some example_target)))
     = Inr (PStr ''hello world'')
   \<and> fst (decorated (example_framework (PStr ''foo'') (PStr ''bar'') PNone) example_handler
          example_controller [] Map.empty
          (snd (decorated (example_framework (PStr ''foo'') (PStr ''bar'') PNone) example_handler
                  example_controller [] Map.empty
                  (decorated_with basic_auth ''basic'' (Some example_target)))))
     = Inr (PStr ''hello world'')"
proof -
  let ?fw = "example_framework (PStr ''foo'') (PStr ''bar'') PNone"
  let ?s = "decorated_with basic_auth ''basic'' (Some example_target)"
  let ?k = "[''username'' \<mapsto> PStr ''foo'', ''password'' \<mapsto> PStr ''bar'']"
  let ?a = "[PReq example_request]"
  let ?s1 = "emit (FuncCall example_controller [] Map.empty) (emit (TargetCall ?a ?k) ?s)"
  let ?r2 = "decorated ?fw example_handler example_controller [] Map.empty ?s1"
  have n: "normalize_target_params ?fw (cls ?s) (request example_controller) [] Map.empty =
      Inr ([], [''request'' \<mapsto> PReq example_request, ''username'' \<mapsto> PStr ''foo'',
                ''password'' \<mapsto> PStr ''bar''])"
    by simp
  have v: "example_target ?a ?k = Inr (PBool True)"
    by (simp add: example_target_def)
  have d1: "decorated ?fw example_handler example_controller [] Map.empty ?s =
      (Inr (PStr ''hello world''), ?s1)"
    by (simp add: decorated_run[OF bindable_empty n bind_target_basic] v example_handler_def)
  have d2: "?r2 = (fst ?r2, snd ?r2)" by simp
  from repeated_call_same_outcome[OF d1 d2] show ?thesis
    by (simp add: d1)
qed

text \<open>
  Claim C9. \<^verbatim>\<open>client_auth.decorate\<close> is \<^verbatim>\<open>basic_auth.decorate\<close> with the same
  target, so the realm of a \<^verbatim>\<open>client_auth\<close> decorator is \<open>basic\<close>, and every
  \<open>AccessDenied\<close> that leaves the closure carries the realm \<open>basic\<close>, unless the
  handler was called (and raised it) or the validator itself raised that exception.
\<close>

theorem client_auth_realm_is_basic:
  assumes "cls s0 = client_auth"
    and "decorate fw func (Given t) s0 = (res, s)"
    and "decorated fw func ctrl args kwargs s = (out, s')"
  shows "client_auth_decorate fw func (Given t) s0 = basic_auth_decorate fw func (Given t) s0
     \<and> realm s = Some ''basic''
     \<and> (\<forall>r m. out = Inl (AccessDenied r m) \<longrightarrow>
           r = ''basic''
           \<or> (\<exists>ev \<in> set (new_events s s'). is_FuncCall ev)
           \<or> (\<exists>f a k. target_callback s = Some f \<and> TargetCall a k \<in> set (new_events s s')
                 \<and> f a k = Inl (AccessDenied r m)))"
proof -
  note st = decorate_given_state[OF assms(2)]
  from st assms(1) have rl: "realm s = Some ''basic''" by simp
  have "client_auth_decorate fw func (Given t) s0 = basic_auth_decorate fw func (Given t) s0"
    by (simp add: client_auth_decorate_def)
  with rl denied_realm[OF assms(3) rl] show ?thesis by blast
qed

text \<open>Client credentials that the validator rejects.\<close>

theorem client_auth_realm_is_basic_witness:
  "decorate (example_framework (PStr ''id'') (PStr ''secret'') PNone) example_handler
      (Given (Some (returning_target (PBool False)))) (new_decorator client_auth)
     = (Inr (decorated (example_framework (PStr ''id'') (PStr ''secret'') PNone) example_handler),
        decorated_with client_auth ''basic'' (Some (returning_target (PBool False))))
   \<and> decorated (example_framework (PStr ''id'') (PStr ''secret'') PNone) example_handler
        example_controller [] Map.empty
        (decorated_with client_auth ''basic'' (Some (returning_target (PBool False))))
     = (Inl (AccessDenied ''basic'' ''target did not return True''),
        emit (Log (ValueError ''target did not return True''))
          (emit (TargetCall [PReq example_request]
                   [''client_id'' \<mapsto> PStr ''id'', ''client_secret'' \<mapsto> PStr ''secret''])
             (decorated_with client_auth ''basic'' (Some (returning_target (PBool False))))))"
proof -
  let ?fw = "example_framework (PStr ''id'') (PStr ''secret'') PNone"
  let ?f = "returning_target (PBool False)"
  let ?s = "decorated_with client_auth ''basic'' (Some ?f)"
  let ?k = "[''client_id'' \<mapsto> PStr ''id'', ''client_secret'' \<mapsto> PStr ''secret'']"
  let ?a = "[PReq example_request]"
  let ?e = "ValueError ''target did not return True''"
  have c: "cls (new_decorator client_auth) = client_auth" by simp
  have dc: "decorate ?fw example_handler (Given (Some ?f)) (new_decorator client_auth)
      = (Inr (decorated ?fw example_handler), ?s)"
    by (rule decorate_new_decorator)
  have n: "normalize_target_params ?fw (cls ?s) (request example_controller) [] Map.empty =
      Inr ([], [''request'' \<mapsto> PReq example_request, ''client_id'' \<mapsto> PStr ''id'',
                ''client_secret'' \<mapsto> PStr ''secret''])"
    by simp
  have v: "?f ?a ?k = Inr (PBool False)"
    by (simp add: returning_target_def)
  have d: "decorated ?fw example_handler example_controller [] Map.empty ?s =
      (Inl (access_denied ?s ?e), emit (Log ?e) (emit (TargetCall ?a ?k) ?s))"
    by (simp add: decorated_run[OF bindable_empty n bind_target_client] v)
  from client_auth_realm_is_basic[OF c dc d] show ?thesis
    by (simp add: dc d access_denied_def)
qed

text \<open>
  Claim C10. When \<^verbatim>\<open>create_request\<close> returns a request for an environ (a
  dictionary, so its keys are distinct) and the new request object starts without
  headers, then: if the request class's test \<^verbatim>\<open>is_method('POST')\<close> holds at the
  moment it is made (every attribute assigned but \<open>body\<close>), the body is what the
  stream under \<^verbatim>\<open>wsgi.input\<close> holds; otherwise the body is \<^verbatim>\<open>None\<close>; and the
  headers map a name \<open>h\<close> to exactly what the environ holds under \<^verbatim>\<open>HTTP_\<close>
  followed by \<open>h\<close>, so they hold the entries with that prefix, under the key without
  its five characters, and nothing else.
\<close>

theorem create_request_body_and_headers:
  assumes "create_request fw r0 raw = Inr r"
    and "distinct (map fst raw)" and "headers r0 = Map.empty"
  shows "(is_method fw (r\<lparr>body := body r0\<rparr>) ''POST'' \<longrightarrow>
            (\<exists>content. map_of raw ''wsgi.input'' = Some (EStream content)
                \<and> body r = Some (Some content)))
       \<and> (\<not> is_method fw (r\<lparr>body := body r0\<rparr>) ''POST'' \<longrightarrow> body r = Some None)
       \<and> (\<forall>h. headers r h = map_of raw (''HTTP_'' @ h))"
proof -
  have hd: "copy_headers raw (headers r0) h = map_of raw (''HTTP_'' @ h)" for h
    by (simp add: copy_headers_lookup[OF assms(2)] assms(3) split: option.splits)
  from assms(1) show ?thesis
    by (auto simp: create_request_def getitem_def Let_def hd
        split: sum.splits option.splits if_splits elim!: read.elims)
qed

text \<open>A POST request with one header, one other key and a body.\<close>

theorem create_request_body_and_headers_witness:
  "create_request (example_framework PNone PNone PNone) example_request example_environ
     = Inr \<lparr>headers = [''HOST'' \<mapsto> EStr ''example.com''],
            request_method = Some (EStr ''POST''), path = Some (EStr ''/user''),
            query = Some (EStr ''a=1''), raw_request = Some example_environ,
            body = Some (Some ''b=2'')\<rparr>
   \<and> distinct (map fst example_environ)
   \<and> map_of example_environ ''HTTP_HOST'' = Some (EStr ''example.com'')
   \<and> map_of example_environ ''HTTP_CONTENT_TYPE'' = None"
proof -
  let ?fw = "example_framework PNone PNone PNone"
  let ?r = "\<lparr>headers = [''HOST'' \<mapsto> EStr ''example.com''],
            request_method = Some (EStr ''POST''), path = Some (EStr ''/user''),
            query = Some (EStr ''a=1''), raw_request = Some example_environ,
            body = Some (Some ''b=2'')\<rparr>"
  have c: "create_request ?fw example_request example_environ = Inr ?r"
    by (simp add: create_request_def getitem_def Let_def startswith_def example_environ_def
        example_request_def example_framework_def)
  have d: "distinct (map fst example_environ)"
    by (simp add: example_environ_def)
  have h: "headers example_request = Map.empty"
    by (simp add: example_request_def)
  from create_request_body_and_headers[OF c d h] c d show ?thesis
    by (simp add: example_environ_def)
qed

end
